theory Spec2Isabelle
  imports Main "HOL-Library.Word"
begin

section \<open>The MLC-LLM JNI bridge (mlc_llm_jni.cpp)\<close>

text \<open>
  The bridge keeps one engine object in the file-level variable
  \<^verbatim>\<open>static std::unique_ptr<MlcLlmState> g_state\<close> and exports eight JNI functions
  that read and write it. The embedding passes that variable explicitly: every exported
  function takes the process state and returns its result together with the new state.
\<close>

subsection \<open>JNI scalar types\<close>

text \<open>
  \<^verbatim>\<open>jint\<close> and \<^verbatim>\<open>jlong\<close> are 32-bit and 64-bit words, read as two's complement by \<open>sint\<close>;
  \<^verbatim>\<open>jboolean\<close> is an unsigned byte. A \<^verbatim>\<open>jfloat\<close> is carried as its 32-bit
  pattern: the bridge only passes such values along and never computes with them.
  A \<^verbatim>\<open>jstring\<close> argument is represented by the bytes that
  \<^verbatim>\<open>GetStringUTFChars\<close> hands to the C++ code.
\<close>

type_synonym jint = "32 word"
type_synonym jlong = "64 word"
type_synonym jboolean = "8 word"
type_synonym jfloat = "32 word"

definition JNI_FALSE :: jboolean where
  "JNI_FALSE = 0"

definition JNI_TRUE :: jboolean where
  "JNI_TRUE = 1"

subsection \<open>Enumerations\<close>

text \<open>
  \<^verbatim>\<open>enum class Backend\<close> and \<^verbatim>\<open>enum class KvCacheType\<close> have underlying type
  \<^verbatim>\<open>int\<close>, and \<^verbatim>\<open>nativeInit\<close> fills them by \<^verbatim>\<open>static_cast\<close> from a
  \<^verbatim>\<open>jint\<close> without a range check, so a field of such a type holds any 32-bit value.
  The enumerators are named constants of that type.
\<close>

type_synonym Backend = jint
type_synonym KvCacheType = jint

definition CPU :: Backend where
  "CPU = 0"

definition VULKAN_GPU :: Backend where
  "VULKAN_GPU = 1"

definition OPENCL_GPU :: Backend where
  "OPENCL_GPU = 2"

definition NPU_HEXAGON :: Backend where
  "NPU_HEXAGON = 3"

definition NPU_MEDIATEK :: Backend where
  "NPU_MEDIATEK = 4"

definition METAL_GPU :: Backend where
  "METAL_GPU = 5"


definition F16 :: KvCacheType where
  "F16 = 1"

definition Q8_0 :: KvCacheType where
  "Q8_0 = 2"

definition Q4_0 :: KvCacheType where
  "Q4_0 = 3"

subsection \<open>Engine state\<close>

text \<open>
  \<^verbatim>\<open>struct MlcLlmState\<close>. The pointer \<^verbatim>\<open>chatModule\<close> is an address, with
  0 for \<^verbatim>\<open>nullptr\<close>.
\<close>

record MlcLlmState =
  chatModule :: jlong
  backend :: Backend
  gpuLayers :: jint
  contextSize :: jint
  batchSize :: jint
  threads :: jint
  useFlashAttention :: bool
  kvCacheType :: KvCacheType
  isGenerating :: bool
  shouldStop :: bool
  pendingToken :: string

text \<open>The default member initialisers, as \<^verbatim>\<open>std::make_unique<MlcLlmState>()\<close> applies them.\<close>

definition MlcLlmState_default :: MlcLlmState where
  "MlcLlmState_default =
     \<lparr>chatModule = 0, backend = CPU, gpuLayers = 0, contextSize = 4096, batchSize = 512,
      threads = 4, useFlashAttention = True, kvCacheType = F16,
      isGenerating = False, shouldStop = False, pendingToken = []\<rparr>"

text \<open>
  The process state. \<open>g_state\<close> is the \<^verbatim>\<open>unique_ptr\<close>: \<open>None\<close> when it is
  null, otherwise the address it holds (what \<^verbatim>\<open>g_state.get()\<close> returns) and the
  object it owns. \<open>destroyed\<close> lists the addresses of the objects the
  \<^verbatim>\<open>unique_ptr\<close> has deleted so far, latest first: a \<^verbatim>\<open>reset()\<close> and an
  assignment both run \<^verbatim>\<open>~MlcLlmState\<close> on the object owned before.
\<close>

record process =
  g_state :: "(jlong \<times> MlcLlmState) option"
  destroyed :: "jlong list"

text \<open>At program start the static \<^verbatim>\<open>unique_ptr\<close> is null and nothing has been deleted.\<close>

definition process_start :: process where
  "process_start = \<lparr>g_state = None, destroyed = []\<rparr>"

subsection \<open>Capability probes\<close>

text \<open>
  \<^verbatim>\<open>nativeCheckVulkan\<close> and \<^verbatim>\<open>nativeCheckOpenCL\<close>. The dynamic loader belongs to
  the platform; \<open>dlopen\<close> says for each library name whether loading it yields a
  non-null handle. The library is closed again at once and \<open>g_state\<close> is not touched.
\<close>

definition nativeCheckVulkan :: "(string \<Rightarrow> bool) \<Rightarrow> process \<Rightarrow> jboolean \<times> process" where
  "nativeCheckVulkan dlopen p =
     (if dlopen ''libvulkan.so'' then (JNI_TRUE, p) else (JNI_FALSE, p))"

definition nativeCheckOpenCL :: "(string \<Rightarrow> bool) \<Rightarrow> process \<Rightarrow> jboolean \<times> process" where
  "nativeCheckOpenCL dlopen p =
     (if dlopen ''libOpenCL.so'' then (JNI_TRUE, p)
      else if dlopen ''/system/vendor/lib64/libOpenCL.so'' then (JNI_TRUE, p)
      else (JNI_FALSE, p))"

subsection \<open>nativeInit\<close>

text \<open>
  \<^verbatim>\<open>g_state = std::make_unique<MlcLlmState>()\<close> allocates the new object first and
  then deletes the one owned before, if any. The address the allocator returns is the
  argument \<open>fresh\<close>; the function returns it as the handle. The model path is only
  logged.
\<close>

definition nativeInit ::
  "jlong \<Rightarrow> string \<Rightarrow> jint \<Rightarrow> jint \<Rightarrow> jint \<Rightarrow> jint \<Rightarrow> jint \<Rightarrow> jboolean \<Rightarrow> jint \<Rightarrow> process
     \<Rightarrow> jlong \<times> process" where
  "nativeInit fresh modelPath backendArg gpuLayersArg contextSizeArg batchSizeArg threadsArg
      useFlashAttentionArg kvCacheTypeArg p =
     (let old = (case g_state p of None \<Rightarrow> destroyed p | Some (a, s) \<Rightarrow> a # destroyed p);
          s0 = MlcLlmState_default;
          s1 = s0\<lparr>backend := backendArg\<rparr>;
          s2 = s1\<lparr>gpuLayers := gpuLayersArg\<rparr>;
          s3 = s2\<lparr>contextSize := contextSizeArg\<rparr>;
          s4 = s3\<lparr>batchSize := batchSizeArg\<rparr>;
          s5 = s4\<lparr>threads := threadsArg\<rparr>;
          s6 = s5\<lparr>useFlashAttention := (useFlashAttentionArg \<noteq> 0)\<rparr>;
          s7 = s6\<lparr>kvCacheType := kvCacheTypeArg\<rparr>
      in (fresh, \<lparr>g_state = Some (fresh, s7), destroyed = old\<rparr>))"

subsection \<open>nativePrompt\<close>

text \<open>\<^verbatim>\<open>strlen\<close> counts the bytes before the first NUL.\<close>

definition strlen :: "string \<Rightarrow> nat" where
  "strlen s = length (takeWhile (\<lambda>c. of_char c \<noteq> (0::nat)) s)"

text \<open>
  \<^verbatim>\<open>int tokenCount = strlen(promptStr) / 4\<close>: the quotient is taken in
  \<^verbatim>\<open>size_t\<close> and converted to \<^verbatim>\<open>int\<close>, which keeps its low 32 bits.
  Without an engine the function returns -1 before it looks at the prompt.
\<close>

definition nativePrompt :: "jlong \<Rightarrow> string \<Rightarrow> process \<Rightarrow> jint \<times> process" where
  "nativePrompt handle prompt p =
     (case g_state p of
        None \<Rightarrow> (- 1, p)
      | Some (a, s) \<Rightarrow>
          (let tokenCount = (word_of_nat (strlen prompt div 4) :: jint)
           in (tokenCount, p)))"

subsection \<open>nativeGenerate\<close>

text \<open>
  The result is a \<^verbatim>\<open>jstring\<close> or \<^verbatim>\<open>nullptr\<close>, here \<open>None\<close>. Past the two
  guards the function sets \<^verbatim>\<open>isGenerating\<close>, clears it again and returns
  \<^verbatim>\<open>nullptr\<close>; the call into the chat module is commented out in the source.
\<close>

definition nativeGenerate ::
  "jlong \<Rightarrow> jint \<Rightarrow> jfloat \<Rightarrow> jfloat \<Rightarrow> jint \<Rightarrow> jfloat \<Rightarrow> jlong \<Rightarrow> process
     \<Rightarrow> string option \<times> process" where
  "nativeGenerate handle maxTokens temperature topP topK repeatPenalty seed p =
     (case g_state p of
        None \<Rightarrow> (None, p)
      | Some (a, s) \<Rightarrow>
          if shouldStop s then (None, p)
          else
            (let s1 = s\<lparr>isGenerating := True\<rparr>;
                 s2 = s1\<lparr>isGenerating := False\<rparr>
             in (None, p\<lparr>g_state := Some (a, s2)\<rparr>)))"

subsection \<open>nativeStopGeneration, nativeResetContext, nativeRelease\<close>

definition nativeStopGeneration :: "jlong \<Rightarrow> process \<Rightarrow> process" where
  "nativeStopGeneration handle p =
     (case g_state p of
        None \<Rightarrow> p
      | Some (a, s) \<Rightarrow> p\<lparr>g_state := Some (a, s\<lparr>shouldStop := True\<rparr>)\<rparr>)"

definition nativeResetContext :: "jlong \<Rightarrow> process \<Rightarrow> process" where
  "nativeResetContext handle p =
     (case g_state p of
        None \<Rightarrow> p
      | Some (a, s) \<Rightarrow> p\<lparr>g_state := Some (a, s\<lparr>shouldStop := False\<rparr>)\<rparr>)"

text \<open>\<^verbatim>\<open>g_state.reset()\<close> deletes the owned object and leaves the pointer null.\<close>

definition nativeRelease :: "jlong \<Rightarrow> process \<Rightarrow> process" where
  "nativeRelease handle p =
     (case g_state p of
        None \<Rightarrow> p
      | Some (a, s) \<Rightarrow> \<lparr>g_state = None, destroyed = a # destroyed p\<rparr>)"

subsection \<open>Sequences of calls\<close>

text \<open>
  A caller drives the bridge by a sequence of calls to the exported functions. A call
  names the function and carries its arguments (for \<^verbatim>\<open>nativeInit\<close> also the address
  the allocator hands out during the call).
\<close>

datatype call =
    CheckVulkan
  | CheckOpenCL
  | Init jlong string jint jint jint jint jint jboolean jint
  | Prompt jlong string
  | Generate jlong jint jfloat jfloat jint jfloat jlong
  | StopGeneration jlong
  | ResetContext jlong
  | Release jlong

fun invoke :: "(string \<Rightarrow> bool) \<Rightarrow> call \<Rightarrow> process \<Rightarrow> process" where
  "invoke dl CheckVulkan p = snd (nativeCheckVulkan dl p)"
| "invoke dl CheckOpenCL p = snd (nativeCheckOpenCL dl p)"
| "invoke dl (Init fresh path b gl cs bs th fa kv) p = snd (nativeInit fresh path b gl cs bs th fa kv p)"
| "invoke dl (Prompt h prompt) p = snd (nativePrompt h prompt p)"
| "invoke dl (Generate h mt t tp tk rp seed) p = snd (nativeGenerate h mt t tp tk rp seed p)"
| "invoke dl (StopGeneration h) p = nativeStopGeneration h p"
| "invoke dl (ResetContext h) p = nativeResetContext h p"
| "invoke dl (Release h) p = nativeRelease h p"

fun run :: "(string \<Rightarrow> bool) \<Rightarrow> call list \<Rightarrow> process \<Rightarrow> process" where
  "run dl [] p = p"
| "run dl (c # cs) p = run dl cs (invoke dl c p)"

text \<open>
  The caller's generation loop: \<open>n\<close> consecutive calls of \<^verbatim>\<open>nativeGenerate\<close> with
  the same request, collecting what each call returns.
\<close>

fun generate_calls ::
  "nat \<Rightarrow> jlong \<Rightarrow> jint \<Rightarrow> jfloat \<Rightarrow> jfloat \<Rightarrow> jint \<Rightarrow> jfloat \<Rightarrow> jlong \<Rightarrow> process
     \<Rightarrow> string option list \<times> process" where
  "generate_calls 0 h mt t tp tk rp seed p = ([], p)"
| "generate_calls (Suc n) h mt t tp tk rp seed p =
     (let (tok, p1) = nativeGenerate h mt t tp tk rp seed p;
          (toks, p2) = generate_calls n h mt t tp tk rp seed p1
      in (tok # toks, p2))"

text \<open>State predicates used by the properties below.\<close>

definition cancelRequested :: "process \<Rightarrow> bool" where
  "cancelRequested p = (case g_state p of None \<Rightarrow> False | Some (a, s) \<Rightarrow> shouldStop s)"

definition generating :: "process \<Rightarrow> bool" where
  "generating p = (case g_state p of None \<Rightarrow> False | Some (a, s) \<Rightarrow> isGenerating s)"

fun clears_cancel :: "call \<Rightarrow> bool" where
  "clears_cancel (Init fresh path b gl cs bs th fa kv) = True"
| "clears_cancel (ResetContext h) = True"
| "clears_cancel (Release h) = True"
| "clears_cancel c = False"

section \<open>Properties\<close>

subsection \<open>Auxiliary facts\<close>

lemma strlen_le_length: "strlen s \<le> length s"
  by (simp add: strlen_def length_takeWhile_le)

lemma sint_token_count:
  assumes "n < 2 ^ 33"
  shows "sint (word_of_nat (n div 4) :: 32 word) = int (n div 4)"
proof -
  have "n div 4 < 2 ^ 31" using assms by simp
  then have "int (n div 4) < 2 ^ 31" by (metis of_nat_less_iff of_nat_numeral of_nat_power)
  moreover have "- (2 ^ 31) \<le> int (n div 4)" by simp
  ultimately have "signed_take_bit 31 (int (n div 4)) = int (n div 4)"
    by (rule signed_take_bit_int_eq_self [rotated])
  then show ?thesis by (simp add: signed_of_nat)
qed



lemma nativeGenerate_idle_session:
  assumes "g_state p = Some (a, s)" and "\<not> isGenerating s"
  shows "nativeGenerate h mt t tp tk rp seed p = (None, p)"
proof (cases "shouldStop s")
  case True
  then show ?thesis using assms(1) by (simp add: nativeGenerate_def)
next
  case False
  have "s\<lparr>isGenerating := True, isGenerating := False\<rparr> = s"
    using assms(2) by simp
  then have "p\<lparr>g_state := Some (a, s\<lparr>isGenerating := True, isGenerating := False\<rparr>)\<rparr> = p"
    using assms(1) by simp
  then show ?thesis using assms(1) False by (simp add: nativeGenerate_def Let_def)
qed

lemma generate_calls_idle_session:
  assumes "g_state p = Some (a, s)" and "\<not> isGenerating s"
  shows "generate_calls n h mt t tp tk rp seed p = (replicate n None, p)"
proof (induction n)
  case 0
  then show ?case by simp
next
  case (Suc n)
  then show ?case
    using nativeGenerate_idle_session [OF assms, of h mt t tp tk rp seed] by simp
qed

lemma invoke_keeps_cancel:
  "cancelRequested p \<Longrightarrow> \<not> clears_cancel c \<Longrightarrow> cancelRequested (invoke dl c p)"
  by (cases c)
     (auto simp: cancelRequested_def nativeCheckVulkan_def nativeCheckOpenCL_def nativePrompt_def
        nativeGenerate_def nativeStopGeneration_def Let_def split: option.splits)

lemma invoke_not_generating: "\<not> generating p \<Longrightarrow> \<not> generating (invoke dl c p)"
  by (cases c)
     (auto simp: generating_def nativeCheckVulkan_def nativeCheckOpenCL_def nativeInit_def
        MlcLlmState_default_def nativePrompt_def nativeGenerate_def nativeStopGeneration_def
        nativeResetContext_def nativeRelease_def Let_def split: option.splits)

lemma run_not_generating: "\<not> generating p \<Longrightarrow> \<not> generating (run dl cs p)"
  by (induction cs arbitrary: p) (simp_all add: invoke_not_generating)

subsection \<open>Cancellation observed by nativeGenerate\<close>

text \<open>
  C1. When a session exists and its \<^verbatim>\<open>shouldStop\<close> flag is set at the time
  \<^verbatim>\<open>nativeGenerate\<close> is called, the call returns \<^verbatim>\<open>nullptr\<close> and leaves the
  whole process state as it was: no field of the engine object is written, so nothing
  is advanced and \<^verbatim>\<open>isGenerating\<close> is not raised.
\<close>

theorem nativeGenerate_cancelled:
  "cancelRequested p \<Longrightarrow> nativeGenerate h mt t tp tk rp seed p = (None, p)"
  by (auto simp: cancelRequested_def nativeGenerate_def split: option.splits)

theorem nativeGenerate_cancelled_witness:
  "cancelRequested
     (nativeStopGeneration 4096 (snd (nativeInit 4096 ''model'' CPU 0 4096 512 4 1 F16 process_start)))
   \<and> nativeGenerate 4096 16 0 0 40 0 42
       (nativeStopGeneration 4096 (snd (nativeInit 4096 ''model'' CPU 0 4096 512 4 1 F16 process_start)))
     = (None,
        nativeStopGeneration 4096 (snd (nativeInit 4096 ''model'' CPU 0 4096 512 4 1 F16 process_start)))"
proof -
  have c: "cancelRequested
     (nativeStopGeneration 4096 (snd (nativeInit 4096 ''model'' CPU 0 4096 512 4 1 F16 process_start)))"
    by (simp add: cancelRequested_def nativeStopGeneration_def nativeInit_def Let_def)
  show ?thesis using c nativeGenerate_cancelled [OF c, of 4096 16 0 0 40 0 42] by simp
qed

subsection \<open>Generation and the seed\<close>



subsection \<open>Opening a session\<close>

text \<open>
  C3, as stated, asks \<^verbatim>\<open>nativeInit\<close> to fail for a model path that cannot be opened
  or a backend that is unavailable. It does not: with an empty model path, backend
  number 99 (no enumerator of \<^verbatim>\<open>Backend\<close>), a negative layer count and zero
  sizes it returns the non-null handle 4096 and installs an engine object holding
  exactly those values.
\<close>

theorem nativeInit_bad_configuration_opens:
  "nativeInit 4096 [] 99 (- 1) 0 0 0 0 99 process_start =
     (4096,
      \<lparr>g_state = Some (4096,
         \<lparr>chatModule = 0, backend = 99, gpuLayers = - 1, contextSize = 0, batchSize = 0,
          threads = 0, useFlashAttention = False, kvCacheType = 99,
          isGenerating = False, shouldStop = False, pendingToken = []\<rparr>),
       destroyed = []\<rparr>)"
  by (simp add: nativeInit_def MlcLlmState_default_def process_start_def Let_def)

text \<open>
  C3, amended. \<^verbatim>\<open>nativeInit\<close> has no failing path: for every model path and every
  configuration it returns the address of the new engine object, which is not null, and
  that object holds the configuration as passed, no chat module, and both
  \<^verbatim>\<open>isGenerating\<close> and \<^verbatim>\<open>shouldStop\<close> false.
\<close>

theorem nativeInit_always_opens:
  "fresh \<noteq> 0 \<Longrightarrow>
   fst (nativeInit fresh path b gl cs bs th fa kv p) \<noteq> 0 \<and>
   g_state (snd (nativeInit fresh path b gl cs bs th fa kv p)) =
     Some (fst (nativeInit fresh path b gl cs bs th fa kv p),
       \<lparr>chatModule = 0, backend = b, gpuLayers = gl, contextSize = cs, batchSize = bs,
        threads = th, useFlashAttention = (fa \<noteq> 0), kvCacheType = kv,
        isGenerating = False, shouldStop = False, pendingToken = []\<rparr>)"
  by (simp add: nativeInit_def MlcLlmState_default_def Let_def)

theorem nativeInit_always_opens_witness:
  "(4096 :: jlong) \<noteq> 0 \<and>
   fst (nativeInit 4096 ''/no/such/model'' 99 0 (- 1) 512 4 1 F16 process_start) \<noteq> 0 \<and>
   g_state (snd (nativeInit 4096 ''/no/such/model'' 99 0 (- 1) 512 4 1 F16 process_start)) =
     Some (4096,
       \<lparr>chatModule = 0, backend = 99, gpuLayers = 0, contextSize = - 1, batchSize = 512,
        threads = 4, useFlashAttention = True, kvCacheType = 1,
        isGenerating = False, shouldStop = False, pendingToken = []\<rparr>)"
proof -
  have h: "(4096 :: jlong) \<noteq> 0" by simp
  show ?thesis
    using h nativeInit_always_opens [OF h, of "''/no/such/model''" 99 0 "- 1" 512 4 1 F16 process_start]
    by (simp add: nativeInit_def F16_def Let_def)
qed

subsection \<open>Ingesting a prompt\<close>

text \<open>
  C4, as stated, promises a positive token count for every non-empty prompt. In an
  open session the two-byte prompt \<open>''Hi''\<close> is counted as 0 tokens.
\<close>

theorem nativePrompt_short_prompt_zero_tokens:
  "g_state (snd (nativeInit 4096 ''model'' CPU 0 4096 512 4 1 F16 process_start)) \<noteq> None \<and>
   ''Hi'' \<noteq> [] \<and>
   \<not> 0 < sint (fst (nativePrompt 4096 ''Hi''
                  (snd (nativeInit 4096 ''model'' CPU 0 4096 512 4 1 F16 process_start))))"
  by (simp add: nativePrompt_def nativeInit_def strlen_def Let_def)

text \<open>
  C4, amended. In an open session, for a prompt of fewer than \<open>2 ^ 33\<close> bytes (every
  prompt that comes from a Java string), \<^verbatim>\<open>nativePrompt\<close> leaves the state as it is
  and returns the estimate: the byte length of the prompt divided by 4, rounded down.
  The estimate is never negative, is at most the length of the input, and is positive
  exactly when the prompt has at least 4 bytes.
\<close>

theorem nativePrompt_token_estimate:
  assumes "g_state p \<noteq> None" and "strlen prompt < 2 ^ 33"
  shows "snd (nativePrompt h prompt p) = p \<and>
         sint (fst (nativePrompt h prompt p)) = int (strlen prompt div 4) \<and>
         0 \<le> sint (fst (nativePrompt h prompt p)) \<and>
         sint (fst (nativePrompt h prompt p)) \<le> int (length prompt) \<and>
         (0 < sint (fst (nativePrompt h prompt p))) = (4 \<le> strlen prompt)"
proof -
  have r: "nativePrompt h prompt p = (word_of_nat (strlen prompt div 4), p)"
    using assms(1) by (auto simp: nativePrompt_def Let_def split: option.splits)
  have v: "sint (fst (nativePrompt h prompt p)) = int (strlen prompt div 4)"
    using r sint_token_count [OF assms(2)] by simp
  have "strlen prompt div 4 \<le> length prompt"
    using strlen_le_length [of prompt] by simp
  then have le: "int (strlen prompt div 4) \<le> int (length prompt)" by simp
  have pos: "(0 < int (strlen prompt div 4)) = (4 \<le> strlen prompt)"
    by (simp add: div_greater_zero_iff)
  show ?thesis using r v le pos by simp
qed

theorem nativePrompt_token_estimate_witness:
  "g_state (snd (nativeInit 4096 ''model'' CPU 0 4096 512 4 1 F16 process_start)) \<noteq> None \<and>
   strlen ''Hello world'' < 2 ^ 33 \<and>
   sint (fst (nativePrompt 4096 ''Hello world''
               (snd (nativeInit 4096 ''model'' CPU 0 4096 512 4 1 F16 process_start)))) = 2 \<and>
   snd (nativePrompt 4096 ''Hello world''
               (snd (nativeInit 4096 ''model'' CPU 0 4096 512 4 1 F16 process_start)))
     = snd (nativeInit 4096 ''model'' CPU 0 4096 512 4 1 F16 process_start)"
proof -
  have a: "g_state (snd (nativeInit 4096 ''model'' CPU 0 4096 512 4 1 F16 process_start)) \<noteq> None"
    by (simp add: nativeInit_def Let_def)
  have b: "strlen ''Hello world'' < 2 ^ 33"
    by (simp add: strlen_def)
  have c: "int (strlen ''Hello world'' div 4) = 2"
    by (simp add: strlen_def)
  show ?thesis
    using a b c nativePrompt_token_estimate [OF a b, of 4096] by simp
qed

subsection \<open>The generation scenario\<close>

text \<open>
  C5, as stated, expects a token from each of the first three
  \<^verbatim>\<open>nativeGenerate\<close> calls of the scenario. Already the first call after opening a
  CPU session (context 4096, batch 512) and ingesting \<open>''Hello world''\<close> returns
  \<^verbatim>\<open>nullptr\<close>.
\<close>

theorem scenario_first_generate_returns_null:
  "fst (nativeGenerate 4096 16 0 0 40 0 42
         (snd (nativePrompt 4096 ''Hello world''
           (snd (nativeInit 4096 ''model'' CPU 0 4096 512 4 1 F16 process_start))))) = None"
  by (simp add: nativeGenerate_def nativePrompt_def nativeInit_def Let_def)

text \<open>
  C5, amended. In the scenario (a CPU session with context 4096 and batch 512, opened
  from any process state; then \<open>''Hello world''\<close> ingested, which counts 2 tokens)
  every \<^verbatim>\<open>nativeGenerate\<close> call returns \<^verbatim>\<open>nullptr\<close>: the three calls before
  \<^verbatim>\<open>nativeStopGeneration\<close>, the call after it, which also leaves the state as it is,
  and the call after \<^verbatim>\<open>nativeResetContext\<close>. \<^verbatim>\<open>nativeStopGeneration\<close> sets the
  cancellation flag and \<^verbatim>\<open>nativeResetContext\<close> clears it, so the last call passes
  both guards; it ends with the flag clear and \<^verbatim>\<open>isGenerating\<close> false.
\<close>

theorem scenario_stub_generation:
  "(let (h, p1) = nativeInit fresh path CPU gl 4096 512 th fa kv p0;
        (n, p2) = nativePrompt h ''Hello world'' p1;
        (toks, p3) = generate_calls 3 h mt t tp tk rp seed p2;
        p4 = nativeStopGeneration h p3;
        (tok4, p5) = nativeGenerate h mt t tp tk rp seed p4;
        p6 = nativeResetContext h p5;
        (tok6, p7) = nativeGenerate h mt t tp tk rp seed p6
    in n = 2 \<and> toks = [None, None, None] \<and> cancelRequested p4 \<and> tok4 = None \<and> p5 = p4 \<and>
       \<not> cancelRequested p6 \<and> tok6 = None \<and> \<not> cancelRequested p7 \<and> \<not> generating p7)"
proof -
  obtain p1 where i: "nativeInit fresh path CPU gl 4096 512 th fa kv p0 = (fresh, p1)"
    by (simp add: nativeInit_def Let_def)
  obtain s1 where g1: "g_state p1 = Some (fresh, s1)"
    and f1: "\<not> isGenerating s1" "\<not> shouldStop s1"
    using i by (auto simp: nativeInit_def MlcLlmState_default_def Let_def)
  have pr: "nativePrompt fresh ''Hello world'' p1 = (2, p1)"
    using g1 by (simp add: nativePrompt_def strlen_def)
  have g3: "generate_calls 3 fresh mt t tp tk rp seed p1 = ([None, None, None], p1)"
    using generate_calls_idle_session [OF g1 f1(1), of 3 fresh mt t tp tk rp seed]
    by (simp add: numeral_3_eq_3)
  define p4 where "p4 = nativeStopGeneration fresh p1"
  have g4: "g_state p4 = Some (fresh, s1\<lparr>shouldStop := True\<rparr>)"
    using g1 by (simp add: p4_def nativeStopGeneration_def)
  have c4: "cancelRequested p4" using g4 by (simp add: cancelRequested_def)
  have n4: "nativeGenerate fresh mt t tp tk rp seed p4 = (None, p4)"
    using nativeGenerate_idle_session [OF g4] f1(1) by simp
  define p6 where "p6 = nativeResetContext fresh p4"
  have g6: "g_state p6 = Some (fresh, s1\<lparr>shouldStop := False\<rparr>)"
    using g4 by (simp add: p6_def nativeResetContext_def)
  have c6: "\<not> cancelRequested p6" using g6 by (simp add: cancelRequested_def)
  have n6: "nativeGenerate fresh mt t tp tk rp seed p6 = (None, p6)"
    using nativeGenerate_idle_session [OF g6] f1(1) by simp
  have i6: "\<not> generating p6" using g6 f1(1) by (simp add: generating_def)
  show ?thesis
    using c4 c6 i6
    by (simp add: i pr g3 n4 n6 p4_def [symmetric] p6_def [symmetric])
qed

subsection \<open>Ingesting without a session\<close>

text \<open>
  C6. When no session is open (\<open>g_state\<close> is null), \<^verbatim>\<open>nativePrompt\<close> returns its
  error value -1, whatever the handle and the prompt, and leaves the process state
  unchanged.
\<close>

theorem nativePrompt_not_initialized:
  "g_state p = None \<Longrightarrow>
   nativePrompt h prompt p = (- 1, p) \<and> sint (fst (nativePrompt h prompt p)) = - 1"
  by (simp add: nativePrompt_def)

theorem nativePrompt_not_initialized_witness:
  "g_state process_start = None \<and>
   nativePrompt 4096 ''Hello world'' process_start = (- 1, process_start) \<and>
   sint (fst (nativePrompt 4096 ''Hello world'' process_start)) = - 1"
proof -
  have n: "g_state process_start = None" by (simp add: process_start_def)
  show ?thesis using n nativePrompt_not_initialized [OF n, of 4096 "''Hello world''"] by simp
qed

subsection \<open>Releasing\<close>

text \<open>
  C7. \<^verbatim>\<open>nativeRelease\<close> is idempotent: from every process state, a second call right
  after the first (with any handle) changes nothing, so the state after two calls is the
  state after one. After the first call \<open>g_state\<close> is null, and the second call
  deletes nothing: the list of deleted objects is part of the state that stays equal.
\<close>

theorem nativeRelease_idempotent:
  "nativeRelease h2 (nativeRelease h1 p) = nativeRelease h1 p \<and>
   g_state (nativeRelease h1 p) = None"
  by (simp add: nativeRelease_def split: option.split)

subsection \<open>A stale handle after a second nativeInit\<close>



subsection \<open>The cancellation flag persists\<close>

text \<open>
  C9. Once the cancellation flag of the current session is set, it stays set over every
  sequence of calls that contains no \<^verbatim>\<open>nativeResetContext\<close>, no
  \<^verbatim>\<open>nativeRelease\<close> and no \<^verbatim>\<open>nativeInit\<close>: neither \<^verbatim>\<open>nativeGenerate\<close> nor
  \<^verbatim>\<open>nativePrompt\<close>, a further \<^verbatim>\<open>nativeStopGeneration\<close> or a capability probe
  clears it.
\<close>

theorem cancel_persists:
  "cancelRequested p \<Longrightarrow> \<forall>c \<in> set cs. \<not> clears_cancel c \<Longrightarrow> cancelRequested (run dl cs p)"
proof (induction cs arbitrary: p)
  case Nil
  then show ?case by simp
next
  case (Cons c cs)
  have "cancelRequested (invoke dl c p)"
    using Cons.prems by (simp add: invoke_keeps_cancel)
  then show ?case using Cons.IH Cons.prems(2) by simp
qed

theorem cancel_persists_witness:
  "cancelRequested
     (nativeStopGeneration 4096 (snd (nativeInit 4096 ''model'' CPU 0 4096 512 4 1 F16 process_start))) \<and>
   list_all (\<lambda>c. \<not> clears_cancel c)
     [Generate 4096 16 0 0 40 0 42, Prompt 4096 ''Hello world'', CheckVulkan,
      CheckOpenCL, StopGeneration 4096, Generate 4096 16 0 0 40 0 42] \<and>
   cancelRequested
     (run (\<lambda>lib. False)
        [Generate 4096 16 0 0 40 0 42, Prompt 4096 ''Hello world'', CheckVulkan,
         CheckOpenCL, StopGeneration 4096, Generate 4096 16 0 0 40 0 42]
        (nativeStopGeneration 4096
           (snd (nativeInit 4096 ''model'' CPU 0 4096 512 4 1 F16 process_start))))"
proof -
  have a: "cancelRequested
     (nativeStopGeneration 4096 (snd (nativeInit 4096 ''model'' CPU 0 4096 512 4 1 F16 process_start)))"
    by (simp add: cancelRequested_def nativeStopGeneration_def nativeInit_def Let_def)
  have b: "\<forall>c \<in> set [Generate 4096 16 0 0 40 0 42, Prompt 4096 ''Hello world'', CheckVulkan,
                CheckOpenCL, StopGeneration 4096, Generate 4096 16 0 0 40 0 42].
      \<not> clears_cancel c"
    by simp
  show ?thesis using a b cancel_persists [OF a b, of "\<lambda>lib. False"] by simp
qed

subsection \<open>isGenerating is clear between calls\<close>

text \<open>
  C10. After any sequence of calls to the exported functions, started from the process
  state at program start, the \<^verbatim>\<open>isGenerating\<close> flag of the current session is false:
  \<^verbatim>\<open>nativeGenerate\<close> sets it only on the path where it also clears it before
  returning, and no other function writes it.
\<close>

theorem never_generating_between_calls:
  "\<not> generating (run dl cs process_start)"
proof -
  have "\<not> generating process_start"
    by (simp add: generating_def process_start_def)
  then show ?thesis by (rule run_not_generating)
qed

end
